theory Spec2Isabelle
  imports Main
begin

section \<open>JavaScript strings and character classes\<close>

text \<open>
  The program under study is the comment renderer of the ticket page (the immediately
  invoked function at lines 532--594 of the ticket detail page, together with the dispatch
  on \<open>isAIAssistantComment\<close> at lines 376--378 and 511--627). It is a chain of
  \<open>String.prototype.replace\<close> calls with regular expression literals, followed by
  \<open>match\<close>, \<open>split\<close>, \<open>trim\<close>, \<open>filter\<close>, \<open>map\<close> and \<open>join\<close>.

  A JavaScript string is a sequence of UTF-16 code units; a code unit is modelled as an
  integer (between 0 and 65535 in a real string) and a string as a list of them. \<open>js\<close> turns an ASCII literal of the
  theory into such a string.
\<close>

type_synonym jstring = "int list"

definition js :: "string \<Rightarrow> jstring" where
  "js s = map of_char s"

text \<open>Line terminators of ECMAScript: LF, CR, LS, PS. The dot and the multiline anchors
  refer to them.\<close>

definition isLineTerminator :: "int \<Rightarrow> bool" where
  "isLineTerminator c = (c = 10 \<or> c = 13 \<or> c = 8232 \<or> c = 8233)"

text \<open>The class \<open>\s\<close>, which is also what \<open>trim\<close> strips: white space and line
  terminators.\<close>

definition isWhiteSpace :: "int \<Rightarrow> bool" where
  "isWhiteSpace c = (c = 9 \<or> c = 10 \<or> c = 11 \<or> c = 12 \<or> c = 13 \<or> c = 32 \<or> c = 160
     \<or> c = 5760 \<or> (8192 \<le> c \<and> c \<le> 8202) \<or> c = 8232 \<or> c = 8233 \<or> c = 8239
     \<or> c = 8287 \<or> c = 12288 \<or> c = 65279)"

definition isDigit :: "int \<Rightarrow> bool" where
  "isDigit c = (48 \<le> c \<and> c \<le> 57)"

text \<open>Canonicalisation under the \<open>i\<close> flag (without \<open>u\<close>) for an ASCII pattern
  character: an input code unit matches an ASCII pattern character exactly when their
  upper-case forms agree, and a code unit above 127 is never mapped into ASCII.\<close>

definition asciiUpper :: "int \<Rightarrow> int" where
  "asciiUpper c = (if 97 \<le> c \<and> c \<le> 122 then c - 32 else c)"

section \<open>Regular expressions with backtracking\<close>

text \<open>
  The fragment of ECMAScript regular expressions that the source uses: single-character
  atoms, greedy and lazy quantifiers on atoms, the optional non-capturing group,
  sequence, alternation, capture groups, the anchors (with and without the \<open>m\<close> flag)
  and positive lookahead.
\<close>

datatype atom =
    Lit int
  | LitI int
  | Dot
  | Space
  | Digit
  | OneOf "int list"
  | NoneOf "int list"

fun atomOk :: "atom \<Rightarrow> int \<Rightarrow> bool" where
  "atomOk (Lit a) c = (c = a)"
| "atomOk (LitI a) c = (asciiUpper c = asciiUpper a)"
| "atomOk Dot c = (\<not> isLineTerminator c)"
| "atomOk Space c = isWhiteSpace c"
| "atomOk Digit c = isDigit c"
| "atomOk (OneOf cs) c = (c \<in> set cs)"
| "atomOk (NoneOf cs) c = (c \<notin> set cs)"

datatype regex =
    Eps
  | Atom atom
  | Rep atom nat "nat option" bool
  | Opt regex
  | Seq regex regex
  | Alt regex regex
  | Grp nat regex
  | Bol bool
  | Eol bool
  | Ahead regex

text \<open>A matcher state: the code unit just before the current position (\<open>None\<close> at the
  start of the input), the input still to be read, and the captures made so far (the
  most recent binding of a group first).\<close>

type_synonym mstate = "int option \<times> jstring \<times> (nat \<times> jstring) list"

fun advance :: "nat \<Rightarrow> mstate \<Rightarrow> mstate" where
  "advance 0 st = st"
| "advance (Suc k) (p, [], caps) = (p, [], caps)"
| "advance (Suc k) (p, c # cs, caps) = advance k (Some c, cs, caps)"

fun countWhile :: "(int \<Rightarrow> bool) \<Rightarrow> jstring \<Rightarrow> nat" where
  "countWhile P [] = 0"
| "countWhile P (c # cs) = (if P c then Suc (countWhile P cs) else 0)"

text \<open>The counts a quantified atom may consume, in the order backtracking tries them:
  from the longest down for a greedy quantifier, from the shortest up for a lazy one.\<close>

definition repCounts :: "nat \<Rightarrow> nat option \<Rightarrow> bool \<Rightarrow> nat \<Rightarrow> nat list" where
  "repCounts lo hi greedy n =
     (let n' = (case hi of None \<Rightarrow> n | Some h \<Rightarrow> min n h);
          ks = [lo ..< Suc n']
      in if greedy then rev ks else ks)"

text \<open>\<open>matches r st\<close> lists every way \<open>r\<close> can match at \<open>st\<close>, in the priority order of
  the backtracking matcher of ECMAScript; the head of the list is the match that
  \<open>exec\<close> reports.\<close>

fun matches :: "regex \<Rightarrow> mstate \<Rightarrow> mstate list" where
  "matches Eps st = [st]"
| "matches (Atom a) (p, rest, caps) =
     (case rest of [] \<Rightarrow> [] | c # cs \<Rightarrow> if atomOk a c then [(Some c, cs, caps)] else [])"
| "matches (Rep a lo hi greedy) (p, rest, caps) =
     map (\<lambda>k. advance k (p, rest, caps))
         (repCounts lo hi greedy (countWhile (atomOk a) rest))"
| "matches (Opt r) (p, rest, caps) =
     filter (\<lambda>(p', rest', caps'). length rest' < length rest) (matches r (p, rest, caps))
     @ [(p, rest, caps)]"
| "matches (Seq r1 r2) st = concat (map (matches r2) (matches r1 st))"
| "matches (Alt r1 r2) st = matches r1 st @ matches r2 st"
| "matches (Grp k r) (p, rest, caps) =
     map (\<lambda>(p', rest', caps'). (p', rest', (k, take (length rest - length rest') rest) # caps'))
         (matches r (p, rest, caps))"
| "matches (Bol multiline) (p, rest, caps) =
     (case p of None \<Rightarrow> [(p, rest, caps)]
      | Some c \<Rightarrow> if multiline \<and> isLineTerminator c then [(p, rest, caps)] else [])"
| "matches (Eol multiline) (p, rest, caps) =
     (case rest of [] \<Rightarrow> [(p, rest, caps)]
      | c # cs \<Rightarrow> if multiline \<and> isLineTerminator c then [(p, rest, caps)] else [])"
| "matches (Ahead r) (p, rest, caps) =
     (case matches r (p, rest, caps) of [] \<Rightarrow> []
      | (p', rest', caps') # more \<Rightarrow> [(p, rest, caps')])"

fun seqs :: "regex list \<Rightarrow> regex" where
  "seqs [] = Eps"
| "seqs (r # rs) = Seq r (seqs rs)"

definition lits :: "string \<Rightarrow> regex" where
  "lits s = seqs (map (\<lambda>c. Atom (Lit (of_char c))) s)"

definition litsI :: "string \<Rightarrow> regex" where
  "litsI s = seqs (map (\<lambda>c. Atom (LitI (of_char c))) s)"

text \<open>A replacement string: literal text and group references \<open>$n\<close>. A group that did
  not take part in the match expands to the empty string.\<close>

datatype titem = TLit jstring | TGrp nat

fun group :: "(nat \<times> jstring) list \<Rightarrow> nat \<Rightarrow> jstring option" where
  "group caps k = map_of caps k"

fun expand :: "titem list \<Rightarrow> (nat \<times> jstring) list \<Rightarrow> jstring" where
  "expand [] caps = []"
| "expand (TLit s # ts) caps = s @ expand ts caps"
| "expand (TGrp k # ts) caps =
     (case group caps k of None \<Rightarrow> [] | Some v \<Rightarrow> v) @ expand ts caps"

text \<open>
  \<open>str.replace(r, t)\<close> for a regular expression with the \<open>g\<close> flag: the matcher is
  tried at every position from left to right; a match is replaced by the expanded
  template and the scan resumes where the match ended. An empty match is followed by a
  step of one code unit, as \<open>AdvanceStringIndex\<close> does. The second argument is the code
  unit before the current position: the regular expression sees the whole input, also
  the part already replaced.
\<close>

function replaceAll :: "regex \<Rightarrow> titem list \<Rightarrow> int option \<Rightarrow> jstring \<Rightarrow> jstring" where
  "replaceAll r t p rest =
     (case matches r (p, rest, []) of
        [] \<Rightarrow> (case rest of [] \<Rightarrow> [] | c # cs \<Rightarrow> c # replaceAll r t (Some c) cs)
      | (p', rest', caps) # more \<Rightarrow>
          if length rest' < length rest then expand t caps @ replaceAll r t p' rest'
          else expand t caps @
               (case rest of [] \<Rightarrow> [] | c # cs \<Rightarrow> c # replaceAll r t (Some c) cs))"
  by pat_completeness auto

termination
  by (relation "measure (\<lambda>(r, t, p, rest). length rest)") auto

declare replaceAll.simps [simp del]

definition replace :: "regex \<Rightarrow> titem list \<Rightarrow> jstring \<Rightarrow> jstring" where
  "replace r t s = replaceAll r t None s"

text \<open>\<open>str.match(r)\<close> for a regular expression without the \<open>g\<close> flag: the captures of
  the leftmost match, or \<open>None\<close> for \<open>null\<close>.\<close>

fun firstMatch :: "regex \<Rightarrow> int option \<Rightarrow> jstring \<Rightarrow> (nat \<times> jstring) list option" where
  "firstMatch r p [] =
     (case matches r (p, [], []) of [] \<Rightarrow> None | (p', rest', caps) # more \<Rightarrow> Some caps)"
| "firstMatch r p (c # cs) =
     (case matches r (p, c # cs, []) of
        [] \<Rightarrow> firstMatch r (Some c) cs
      | (p', rest', caps) # more \<Rightarrow> Some caps)"

definition matchJs :: "regex \<Rightarrow> jstring \<Rightarrow> (nat \<times> jstring) list option" where
  "matchJs r s = firstMatch r None s"

section \<open>String methods\<close>

definition trim :: "jstring \<Rightarrow> jstring" where
  "trim s = rev (dropWhile isWhiteSpace (rev (dropWhile isWhiteSpace s)))"

fun startsWith :: "jstring \<Rightarrow> jstring \<Rightarrow> bool" where
  "startsWith [] s = True"
| "startsWith (a # as) [] = False"
| "startsWith (a # as) (c # cs) = (a = c \<and> startsWith as cs)"

text \<open>\<open>s.includes(pat)\<close>.\<close>

fun includesJs :: "jstring \<Rightarrow> jstring \<Rightarrow> bool" where
  "includesJs pat [] = startsWith pat []"
| "includesJs pat (c # cs) = (startsWith pat (c # cs) \<or> includesJs pat cs)"

text \<open>\<open>s.split('\n\n')\<close>: the pieces between the occurrences of two line feeds, found
  from left to right without overlap; the empty string gives one empty piece.\<close>

fun splitJs :: "jstring \<Rightarrow> jstring list" where
  "splitJs [] = [[]]"
| "splitJs (c # cs) =
     (if c = 10 \<and> startsWith [10] cs then [] # splitJs (tl cs)
      else (case splitJs cs of [] \<Rightarrow> [[c]] | piece # pieces \<Rightarrow> (c # piece) # pieces))"

text \<open>\<open>s.replace('%', '')\<close> with a string pattern: only the first occurrence goes.\<close>

fun removeFirst :: "int \<Rightarrow> jstring \<Rightarrow> jstring" where
  "removeFirst a [] = []"
| "removeFirst a (c # cs) = (if c = a then cs else c # removeFirst a cs)"

section \<open>The regular expressions of the renderer\<close>

text \<open>Line 534: a character class written with pictographs and no \<open>u\<close> flag. Without the
  flag the pattern is read code unit by code unit, so a pictograph outside the basic
  plane contributes its two surrogates as separate members of the class.\<close>

definition utf16 :: "int \<Rightarrow> int list" where
  "utf16 cp = (if cp < 65536 then [cp]
               else [55296 + (cp - 65536) div 1024, 56320 + (cp - 65536) mod 1024])"

definition pictographs :: "int list" where
  "pictographs = [0x1F3AF, 0x1F4CB, 0x1F50D, 0x1F4A1, 0x2705, 0x274C, 0x26A0, 0xFE0F,
                  0x1F680, 0x1F4CA, 0x1F527, 0x2B50, 0x1F916, 0x1F7E2, 0x1F7E1, 0x1F534]"

definition pictographUnits :: "int list" where
  "pictographUnits = concat (map utf16 pictographs)"

definition rePictographs :: regex where
  "rePictographs = Atom (OneOf pictographUnits)"

text \<open>Line 535: six ranges under the \<open>gu\<close> flags. With \<open>u\<close> the input is read code
  point by code point: a high surrogate followed by a low surrogate is one character,
  any other code unit is a character of its own.\<close>

definition isHighSurrogate :: "int \<Rightarrow> bool" where
  "isHighSurrogate c = (0xD800 \<le> c \<and> c \<le> 0xDBFF)"

definition isLowSurrogate :: "int \<Rightarrow> bool" where
  "isLowSurrogate c = (0xDC00 \<le> c \<and> c \<le> 0xDFFF)"

definition codePoint :: "int \<Rightarrow> int \<Rightarrow> int" where
  "codePoint h l = 0x10000 + (h - 0xD800) * 0x400 + (l - 0xDC00)"

definition inRanges :: "int \<Rightarrow> bool" where
  "inRanges cp = ((0x1F600 \<le> cp \<and> cp \<le> 0x1F64F) \<or> (0x1F300 \<le> cp \<and> cp \<le> 0x1F5FF)
     \<or> (0x1F680 \<le> cp \<and> cp \<le> 0x1F6FF) \<or> (0x1F1E0 \<le> cp \<and> cp \<le> 0x1F1FF)
     \<or> (0x2600 \<le> cp \<and> cp \<le> 0x26FF) \<or> (0x2700 \<le> cp \<and> cp \<le> 0x27BF))"

fun replaceRanges :: "jstring \<Rightarrow> jstring" where
  "replaceRanges [] = []"
| "replaceRanges [c] = (if inRanges c then [] else [c])"
| "replaceRanges (h # l # cs) =
     (if isHighSurrogate h \<and> isLowSurrogate l
      then (if inRanges (codePoint h l) then replaceRanges cs
            else h # l # replaceRanges cs)
      else if inRanges h then replaceRanges (l # cs)
      else h # replaceRanges (l # cs))"

text \<open>Lines 536 and 537: the banner lines, flags \<open>gi\<close>.\<close>

definition lineStart :: regex where
  "lineStart = Alt (Bol False) (Atom (Lit 10))"

definition lineEnd :: regex where
  "lineEnd = Alt (Atom (Lit 10)) (Eol False)"

definition spaces :: regex where
  "spaces = Rep Space 0 None True"

definition reBannerAI :: regex where
  "reBannerAI = seqs [lineStart, spaces, Opt (lits ''**''), litsI ''AI Root Cause Analysis'',
                      Opt (lits ''**''), spaces, lineEnd]"

definition reBanner :: regex where
  "reBanner = seqs [lineStart, spaces, Opt (lits ''**''), litsI ''Root Cause Analysis'',
                    Opt (lits ''**''), spaces, lineEnd]"

text \<open>Lines 538 and 539: the trailer, flags \<open>gi\<close>.\<close>

definition reRuleMethod :: regex where
  "reRuleMethod = seqs [lits ''---'', Rep Dot 0 None False, litsI ''Analysis method:'',
                        Rep Dot 0 None False, lineEnd]"

definition reMethod :: regex where
  "reMethod = seqs [Rep Dot 0 None False, litsI ''Analysis method:'',
                    Rep Dot 0 None False, lineEnd]"

text \<open>Lines 540 and 541: the horizontal rules, flags \<open>gm\<close>.\<close>

definition reRule :: regex where
  "reRule = seqs [Bol True, spaces, lits ''--'', Rep (Lit 45) 1 None True, spaces, Eol True]"

definition reRuleAny :: regex where
  "reRuleAny = seqs [Bol True, spaces, lits ''---'', Rep Dot 0 None True, Eol True]"

text \<open>Lines 542 and 543: bold spans and headings, flag \<open>g\<close>.\<close>

definition reBold :: regex where
  "reBold = seqs [lits ''**'', Grp 1 (Rep Dot 0 None False), lits ''**'']"

definition reHeading :: regex where
  "reHeading = seqs [Rep (Lit 35) 1 (Some 6) True, Atom Space, Grp 1 (Rep Dot 0 None False),
                     Ahead lineEnd]"

definition tStrong :: "titem list" where
  "tStrong = [TLit (js ''<strong>''), TGrp 1, TLit (js ''</strong>'')]"

text \<open>Lines 544 and 545: list lines, flags \<open>gm\<close>. The bullet of the replacement is
  U+2022.\<close>

definition reBullet :: regex where
  "reBullet = seqs [Bol True, spaces, Atom (OneOf (js ''-*+'')), Atom Space,
                    Grp 1 (Rep Dot 1 None True)]"

definition reNumbered :: regex where
  "reNumbered = seqs [Bol True, spaces, Grp 1 (Rep Digit 1 None True), Atom (Lit 46),
                      Atom Space, Grp 2 (Rep Dot 1 None True)]"

definition listTag :: jstring where
  \<open>listTag = js ''<p class="mb-2">''\<close>

definition tBullet :: "titem list" where
  "tBullet = [TLit (listTag @ [0x2022, 32]), TGrp 1, TLit (js ''</p>'')]"

definition tNumbered :: "titem list" where
  "tNumbered = [TLit listTag, TGrp 1, TLit (js ''. ''), TGrp 2, TLit (js ''</p>'')]"

text \<open>Lines 546 to 548: code spans, links and runs of line feeds, flag \<open>g\<close>.\<close>

definition reCode :: regex where
  "reCode = seqs [Atom (Lit 96), Grp 1 (Rep (NoneOf [96]) 1 None True), Atom (Lit 96)]"

definition reLink :: regex where
  "reLink = seqs [Atom (Lit 91), Grp 1 (Rep (NoneOf [93]) 1 None True), Atom (Lit 93),
                  Atom (Lit 40), Rep (NoneOf [41]) 1 None True, Atom (Lit 41)]"

definition reBlankLines :: regex where
  "reBlankLines = seqs [Atom (Lit 10), Rep (Lit 10) 1 None True]"

definition tGroup1 :: "titem list" where
  "tGroup1 = [TGrp 1]"

definition tNewline :: "titem list" where
  "tNewline = [TLit [10]]"

definition tBlankLine :: "titem list" where
  "tBlankLine = [TLit [10, 10]]"

text \<open>Line 551, flag \<open>i\<close>, and line 563, flags \<open>gi\<close>: the confidence line.\<close>

definition reConfidence :: regex where
  "reConfidence = seqs [lineStart, spaces, Opt (lits ''**''), litsI ''Confidence Level'',
       Rep (Lit 58) 0 (Some 1) True, spaces, Grp 1 (Rep (NoneOf [40, 10]) 0 None False),
       Opt (seqs [spaces, Atom (Lit 40), Grp 2 (Rep (NoneOf [41]) 1 None True), Atom (Lit 41)]),
       lineEnd]"

definition reConfidenceLine :: regex where
  "reConfidenceLine = seqs [lineStart, spaces, Opt (lits ''**''), litsI ''Confidence Level'',
       Rep (Lit 58) 0 (Some 1) True, Rep Dot 0 None False, lineEnd]"

text \<open>Line 570: the list tag at the start of the paragraph (no flag).\<close>

definition reListTag :: regex where
  \<open>reListTag = Seq (Bol False) (lits ''<p class="mb-2">'')\<close>

section \<open>The renderer\<close>

text \<open>Lines 533 to 549.\<close>

definition processedContent :: "jstring \<Rightarrow> jstring" where
  "processedContent content =
     trim (replace reBlankLines tBlankLine
          (replace reLink tGroup1
          (replace reCode tGroup1
          (replace reNumbered tNumbered
          (replace reBullet tBullet
          (replace reHeading tStrong
          (replace reBold tStrong
          (replace reRuleAny []
          (replace reRule []
          (replace reMethod []
          (replace reRuleMethod []
          (replace reBanner tNewline
          (replace reBannerAI tNewline
          (replaceRanges
          (replace rePictographs [] content)))))))))))))))"

text \<open>Lines 566 to 576: the array that \<open>join\<close> receives. A paragraph that holds a list
  tag is passed on as it is, any other is wrapped.\<close>

definition wrapParagraph :: "jstring \<Rightarrow> jstring" where
  \<open>wrapParagraph paragraph = js ''<p class="mb-3">'' @ paragraph @ js ''</p>''\<close>

definition paragraphs :: "jstring \<Rightarrow> jstring list" where
  "paragraphs text =
     filter (\<lambda>paragraph. matchJs reListTag paragraph = None)
       (filter (\<lambda>paragraph. length paragraph > 0)
         (map trim (splitJs text)))"

definition renderParagraph :: "jstring \<Rightarrow> jstring" where
  "renderParagraph paragraph =
     (if includesJs listTag paragraph then paragraph else wrapParagraph paragraph)"

definition mainBlocks :: "jstring \<Rightarrow> jstring list" where
  "mainBlocks text = map renderParagraph (paragraphs text)"

text \<open>Lines 551 to 555: \<open>level\<close> and \<open>percentage\<close>. \<open>confidenceMatch[1].trim()\<close> raises
  a \<open>TypeError\<close> when the first group is undefined; an undefined or empty second group
  is falsy and gives \<open>null\<close>.\<close>

datatype error = TypeError

definition confidenceParts :: "jstring \<Rightarrow> error + (jstring \<times> jstring option) option" where
  "confidenceParts processed =
     (case matchJs reConfidence processed of
        None \<Rightarrow> Inr None
      | Some confidenceMatch \<Rightarrow>
          (case group confidenceMatch 1 of
             None \<Rightarrow> Inl TypeError
           | Some g1 \<Rightarrow>
               Inr (Some (trim g1,
                          (case group confidenceMatch 2 of
                             None \<Rightarrow> None
                           | Some g2 \<Rightarrow> if g2 = [] then None else Some (trim g2))))))"

text \<open>Lines 557 to 561: the text shown after ``Confidence Level:''. An empty percentage
  is falsy.\<close>

definition formatConfidence :: "jstring \<Rightarrow> jstring option \<Rightarrow> jstring" where
  "formatConfidence level percentage =
     (case percentage of
        None \<Rightarrow> level
      | Some pct \<Rightarrow> if pct = [] then level
                    else level @ js '' ('' @ removeFirst 37 pct @ js ''%)'')"

text \<open>The two values the component paints: \<open>confidenceLevel\<close> and the array whose
  \<open>join('')\<close> is \<open>mainContent\<close>.\<close>

record rendered =
  confidenceLevel :: "jstring option"
  blocks :: "jstring list"

definition mainContent :: "rendered \<Rightarrow> jstring" where
  "mainContent d = concat (blocks d)"

definition render :: "jstring \<Rightarrow> error + rendered" where
  "render content =
     (let processed = processedContent content in
      case confidenceParts processed of
        Inl e \<Rightarrow> Inl e
      | Inr None \<Rightarrow> Inr \<lparr>confidenceLevel = None, blocks = mainBlocks processed\<rparr>
      | Inr (Some (level, percentage)) \<Rightarrow>
          Inr \<lparr>confidenceLevel = Some (formatConfidence level percentage),
               blocks = mainBlocks (replace reConfidenceLine tNewline processed)\<rparr>)"

section \<open>The dispatch on the author of a comment\<close>

text \<open>Lines 376 to 378 and 511 to 627: a comment whose author is the assistant goes
  through the renderer, any other comment is shown as it is, in an element that keeps
  its white space.\<close>

datatype systemUserType = ci_automation | ai_assistant | data_processor | notification_service

record actorInfo =
  display_name :: jstring
  system_user_type :: "systemUserType option"

record comment =
  content :: jstring
  author_info :: "actorInfo option"

definition isAIAssistantComment :: "comment \<Rightarrow> bool" where
  "isAIAssistantComment c =
     (case author_info c of None \<Rightarrow> False
      | Some a \<Rightarrow> system_user_type a = Some ai_assistant)"

datatype shown = Rendered "error + rendered" | Verbatim jstring

definition commentBody :: "comment \<Rightarrow> shown" where
  "commentBody c =
     (if isAIAssistantComment c then Rendered (render (content c)) else Verbatim (content c))"

section \<open>Notions used in the statements and proofs\<close>

text \<open>\<open>binds r k\<close>: every way through \<open>r\<close> passes a capture group numbered \<open>k\<close>.\<close>

fun binds :: "regex \<Rightarrow> nat \<Rightarrow> bool" where
  "binds (Grp j r) k = (j = k \<or> binds r k)"
| "binds (Seq r1 r2) k = (binds r1 k \<or> binds r2 k)"
| "binds (Alt r1 r2) k = (binds r1 k \<and> binds r2 k)"
| "binds r k = False"













section \<open>Properties of the matcher and of the string methods\<close>

lemma advance_caps: "snd (snd (advance k st)) = snd (snd st)"
  by (induction k st rule: advance.induct) simp_all

lemma advance_caps': "advance k (p, rest, caps) = (p', rest', caps') \<Longrightarrow> caps' = caps"
  using advance_caps [of k "(p, rest, caps)"] by simp

lemma matches_keeps:
  "(p', rest', caps') \<in> set (matches r (p, rest, caps)) \<Longrightarrow> map_of caps k \<noteq> None
   \<Longrightarrow> map_of caps' k \<noteq> None"
proof (induction r arbitrary: p rest caps p' rest' caps')
  case (Rep a lo hi g)
  then show ?case by (auto dest: advance_caps' [OF sym])
next
  case (Seq r1 r2)
  from Seq.prems(1) obtain p1 rest1 caps1 where
    a: "(p1, rest1, caps1) \<in> set (matches r1 (p, rest, caps))" and
    b: "(p', rest', caps') \<in> set (matches r2 (p1, rest1, caps1))"
    by auto
  from Seq.IH(1) [OF a Seq.prems(2)] have "map_of caps1 k \<noteq> None" .
  from Seq.IH(2) [OF b this] show ?case .
next
  case (Ahead r)
  then show ?case by (auto split: list.splits) (metis list.set_intros(1))
qed (auto split: list.splits option.splits if_splits)

lemma matches_binds:
  "binds r k \<Longrightarrow> (p', rest', caps') \<in> set (matches r (p, rest, caps))
   \<Longrightarrow> map_of caps' k \<noteq> None"
proof (induction r arbitrary: p rest caps p' rest' caps')
  case (Seq r1 r2)
  from Seq.prems(2) obtain p1 rest1 caps1 where
    a: "(p1, rest1, caps1) \<in> set (matches r1 (p, rest, caps))" and
    b: "(p', rest', caps') \<in> set (matches r2 (p1, rest1, caps1))"
    by auto
  show ?case
  proof (cases "binds r1 k")
    case True
    from Seq.IH(1) [OF True a] have "map_of caps1 k \<noteq> None" .
    from matches_keeps [OF b this] show ?thesis .
  next
    case False
    with Seq.prems(1) have "binds r2 k" by simp
    from Seq.IH(2) [OF this b] show ?thesis .
  qed
qed auto

lemma firstMatch_Some:
  "firstMatch r p s = Some caps \<Longrightarrow>
   \<exists>p0 s0 p' rest' more. matches r (p0, s0, []) = (p', rest', caps) # more"
proof (induction s arbitrary: p)
  case Nil
  then show ?case by (auto split: list.splits) blast
next
  case (Cons c cs)
  show ?case
  proof (cases "matches r (p, c # cs, [])")
    case Nil
    with Cons.prems have "firstMatch r (Some c) cs = Some caps" by simp
    from Cons.IH [OF this] show ?thesis .
  next
    case (Cons st more)
    with Cons.prems show ?thesis by (cases st) (auto, blast)
  qed
qed

lemma binds_reConfidence: "binds reConfidence 1"
  by (simp add: reConfidence_def)

lemma confidenceParts_total: "\<exists>v. confidenceParts t = Inr v"
proof (cases "matchJs reConfidence t")
  case None
  then show ?thesis by (simp add: confidenceParts_def)
next
  case (Some cm)
  then obtain p0 s0 p' rest' more where
    m: "matches reConfidence (p0, s0, []) = (p', rest', cm) # more"
    unfolding matchJs_def by (blast dest: firstMatch_Some)
  then have "(p', rest', cm) \<in> set (matches reConfidence (p0, s0, []))" by simp
  from matches_binds [OF binds_reConfidence this] have "map_of cm 1 \<noteq> None" .
  with Some show ?thesis by (auto simp: confidenceParts_def)
qed

lemma render_total: "\<exists>d. render raw = Inr d"
proof -
  obtain v where "confidenceParts (processedContent raw) = Inr v"
    using confidenceParts_total by blast
  then show ?thesis by (cases v) (auto simp: render_def Let_def)
qed

lemma last_dropWhile: "dropWhile P xs \<noteq> [] \<Longrightarrow> last (dropWhile P xs) = last xs"
  by (induction xs) auto

lemma trim_trim: "trim (trim s) = trim s"
proof -
  define u where "u = dropWhile isWhiteSpace s"
  define v where "v = dropWhile isWhiteSpace (rev u)"
  have ts: "trim s = rev v" by (simp add: trim_def u_def v_def)
  have a: "dropWhile isWhiteSpace (rev v) = rev v"
  proof (cases "v = []")
    case True
    then show ?thesis by simp
  next
    case False
    then have "last v = last (rev u)" unfolding v_def by (rule last_dropWhile)
    moreover from False have "u \<noteq> []" unfolding v_def by auto
    ultimately have "last v = hd u" by (simp add: last_rev)
    moreover from \<open>u \<noteq> []\<close> have "\<not> isWhiteSpace (hd u)"
      unfolding u_def by (rule hd_dropWhile)
    ultimately have "\<not> isWhiteSpace (hd (rev v))" using False by (simp add: hd_rev)
    then show ?thesis by (simp add: dropWhile_eq_self_iff)
  qed
  have b: "dropWhile isWhiteSpace v = v" unfolding v_def by (rule dropWhile_idem)
  show ?thesis unfolding ts by (simp add: trim_def a b)
qed

lemma paragraphs_trimmed:
  "p \<in> set (paragraphs t) \<Longrightarrow> p \<noteq> [] \<and> trim p = p"
  by (auto simp: paragraphs_def trim_trim)

lemma trim_wrapParagraph: "trim (wrapParagraph p) = wrapParagraph p"
  by (simp add: wrapParagraph_def trim_def js_def isWhiteSpace_def)

lemma renderParagraph_trimmed:
  "p \<noteq> [] \<Longrightarrow> trim p = p \<Longrightarrow>
   renderParagraph p \<noteq> [] \<and> trim (renderParagraph p) = renderParagraph p"
  by (simp add: renderParagraph_def trim_wrapParagraph) (simp add: wrapParagraph_def js_def)

lemma mainBlocks_trimmed:
  "b \<in> set (mainBlocks t) \<Longrightarrow> b \<noteq> [] \<and> trim b = b"
  unfolding mainBlocks_def using paragraphs_trimmed renderParagraph_trimmed by auto
























lemma render_blocks_cases:
  assumes "render raw = Inr d"
  shows "blocks d = mainBlocks (processedContent raw)
      \<or> blocks d = mainBlocks (replace reConfidenceLine tNewline (processedContent raw))"
proof (cases "confidenceParts (processedContent raw)")
  case (Inl e)
  with assms show ?thesis by (simp add: render_def)
next
  case (Inr v)
  show ?thesis
  proof (cases v)
    case None
    with Inr assms show ?thesis by (auto simp: render_def)
  next
    case (Some lp)
    with Inr assms show ?thesis by (cases lp) (auto simp: render_def)
  qed
qed








lemma mainBlocks_paragraph:
  "b \<in> set (mainBlocks t) \<Longrightarrow> \<exists>p. b = renderParagraph p \<and> trim p = p \<and> p \<noteq> []"
  unfolding mainBlocks_def using paragraphs_trimmed by auto

lemma render_blocks_trimmed:
  assumes "render raw = Inr d" "b \<in> set (blocks d)"
  shows "b \<noteq> [] \<and> trim b = b \<and> (\<exists>p. b = renderParagraph p \<and> trim p = p \<and> p \<noteq> [])"
proof -
  from render_blocks_cases [OF assms(1)] obtain t where "blocks d = mainBlocks t" by blast
  with assms(2) have "b \<in> set (mainBlocks t)" by simp
  with mainBlocks_trimmed mainBlocks_paragraph show ?thesis by blast
qed

lemma render_empty_iff:
  assumes "render raw = Inr d"
  shows "mainContent d = [] \<longleftrightarrow> blocks d = []"
proof
  assume e: "mainContent d = []"
  show "blocks d = []"
  proof (cases "blocks d")
    case Nil
    then show ?thesis .
  next
    case (Cons b bs)
    then have "b \<in> set (blocks d)" by simp
    from render_blocks_trimmed [OF assms this] have "b \<noteq> []" by simp
    with e Cons show ?thesis by (simp add: mainContent_def)
  qed
next
  assume "blocks d = []"
  then show "mainContent d = []" by (simp add: mainContent_def)
qed












lemma matches_Bol_Some: "matches (Seq (Bol False) r) (Some c, rest, caps) = []"
  by simp



























section \<open>The claims on concrete inputs\<close>

text \<open>
  In the theorems below a block of the specification is an element of \<open>blocks\<close>: a
  \<open>Paragraph\<close> with html \<open>h\<close> is the element \<open>wrapParagraph h\<close>, and list items are the
  \<open>listTag\<close> elements inside a paragraph that is passed on unwrapped. The confidence of
  the specification is held by the code as \<open>level\<close> and \<open>percentage\<close>
  (\<open>confidenceParts\<close>) and painted as \<open>confidenceLevel\<close>.
\<close>

text \<open>
  C1 (list fidelity). The claim: for the input of two bullet lines, a blank line and two
  numbered lines, render yields four list items in the original order. The code tags the
  four lines, and the two multiline list patterns swallow the blank line between them, so
  the whole text is one paragraph that starts with the list tag; the filter of line 570
  then drops it and nothing is rendered.
\<close>

theorem C1_list_lines_dropped:
  "processedContent (js ''- first\<newline>- second\<newline>\<newline>1. one\<newline>2. two'')
     = listTag @ [0x2022] @ js '' first</p>\<newline>'' @
       listTag @ [0x2022] @ js '' second</p>\<newline>'' @
       listTag @ js ''1. one</p>\<newline>'' @
       listTag @ js ''2. two</p>''
   \<and> render (js ''- first\<newline>- second\<newline>\<newline>1. one\<newline>2. two'')
     = Inr \<lparr>confidenceLevel = None, blocks = []\<rparr>"
  by code_simp


text \<open>
  C6 (banner and trailer). For the banner \<open>**AI Root Cause Analysis**\<close>, a blank line,
  \<open>Real content\<close>, a blank line, a rule \<open>---\<close> and the line
  \<open>Analysis method: pattern-based\<close>, the output is the single paragraph
  \<open>Real content\<close> and no confidence: nothing of the banner, the rule or the trailer is
  left.
\<close>

theorem C6_banner_and_trailer_stripped:
  \<open>render (js ''**AI Root Cause Analysis**\<newline>\<newline>Real content\<newline>\<newline>---\<newline>Analysis method: pattern-based'')
     = Inr \<lparr>confidenceLevel = None, blocks = [wrapParagraph (js ''Real content'')]\<rparr>
   \<and> concat [wrapParagraph (js ''Real content'')] = js ''<p class="mb-3">Real content</p>''\<close>
  by code_simp

section \<open>The claims on every input\<close>

text \<open>
  C3 (totality and fallback). The claim: render never throws and returns a document for
  every input; when the text cannot be segmented it falls back to one paragraph holding
  the escaped raw text, and the empty string gives no confidence and no block. The code
  has no fallback and no escaping: for the input \<open>---\<close> the rule is removed and the
  document has no block at all.
\<close>

theorem C3_no_fallback_counterexample:
  "render (js ''---'') = Inr \<lparr>confidenceLevel = None, blocks = []\<rparr>
   \<and> render (js ''---'') \<noteq> Inr \<lparr>confidenceLevel = None, blocks = [wrapParagraph (js ''---'')]\<rparr>"
  by code_simp

text \<open>
  C3 as amended: render returns a document for every input (the one place that could
  raise, \<open>confidenceMatch[1].trim()\<close>, never does, because every match binds group 1);
  the painted html is empty exactly when no paragraph survived, without any fallback;
  and the empty string gives no confidence and no block.
\<close>

theorem C3_render_total:
  "(\<exists>d. render raw = Inr d \<and> (mainContent d = [] \<longleftrightarrow> blocks d = []))
   \<and> render [] = Inr \<lparr>confidenceLevel = None, blocks = []\<rparr>"
proof
  from render_total obtain d where d: "render raw = Inr d" by blast
  with render_empty_iff [OF d]
  show "\<exists>d. render raw = Inr d \<and> (mainContent d = [] \<longleftrightarrow> blocks d = [])" by blast
  show "render [] = Inr \<lparr>confidenceLevel = None, blocks = []\<rparr>" by code_simp
qed






text \<open>
  C9 (comments of other authors). A comment without author information, or whose author
  is not the assistant, is not sent through the renderer: what is shown is its content,
  unchanged.
\<close>

theorem C9_other_authors_verbatim:
  assumes "author_info c = None
           \<or> (\<exists>a. author_info c = Some a \<and> system_user_type a \<noteq> Some ai_assistant)"
  shows "\<not> isAIAssistantComment c \<and> commentBody c = Verbatim (content c)"
  using assms by (auto simp: isAIAssistantComment_def commentBody_def)

theorem C9_other_authors_verbatim_witness:
  "commentBody \<lparr>content = js ''**not bold**\<newline>\<newline>\<newline>- kept'', author_info = None\<rparr>
     = Verbatim (js ''**not bold**\<newline>\<newline>\<newline>- kept'')
   \<and> commentBody \<lparr>content = js ''# build 12\<newline>  done'',
         author_info = Some \<lparr>display_name = js ''CI'', system_user_type = Some ci_automation\<rparr>\<rparr>
     = Verbatim (js ''# build 12\<newline>  done'')"
  using C9_other_authors_verbatim
          [of "\<lparr>content = js ''**not bold**\<newline>\<newline>\<newline>- kept'', author_info = None\<rparr>"]
        C9_other_authors_verbatim
          [of "\<lparr>content = js ''# build 12\<newline>  done'',
                author_info = Some \<lparr>display_name = js ''CI'', system_user_type = Some ci_automation\<rparr>\<rparr>"]
  by simp









end
